theory Spec2Isabelle
  imports Complex_Main
begin

section \<open>Python floats\<close>

text \<open>
  The script \<^verbatim>\<open>get_pole_vector.py\<close> computes with Python floats and with Maya's
  \<^verbatim>\<open>MVector\<close> (three doubles): IEEE 754 binary64 numbers with rounding to nearest,
  ties to even. A \<open>pyfloat\<close> is a finite number, an infinity or NaN; every arithmetic
  operation computes the exact real result and rounds it with \<open>rnd\<close>, which also
  decides overflow (to an infinity) and underflow (to a subnormal number or zero).
  The two zeros are not told apart: they compare equal, Python's division raises for
  both, and the script never divides by a zero in any other way.
\<close>

datatype pyfloat = Fin real | PInf | NInf | NaN

fun isfinite :: "pyfloat \<Rightarrow> bool" where
  "isfinite (Fin a) = True"
| "isfinite PInf = False"
| "isfinite NInf = False"
| "isfinite NaN = False"

text \<open>Rounding a real to the nearest integer, a tie going to the even neighbour.\<close>

definition round_even :: "real \<Rightarrow> int" where
  "round_even m =
     (let f = \<lfloor>m\<rfloor>; d = m - of_int f
      in if d < 1 / 2 then f else if 1 / 2 < d then f + 1 else if even f then f else f + 1)"

text \<open>
  The exponent of the unit in the last place at \<open>x\<close>: 53 significant bits, and no
  exponent below the subnormal range.
\<close>

definition ulp_exp :: "real \<Rightarrow> int" where
  "ulp_exp x = max \<lfloor>log 2 \<bar>x\<bar>\<rfloor> (- 1022) - 52"

definition max_double :: real where
  "max_double = (2 ^ 53 - 1) * 2 ^ 971"

definition rnd :: "real \<Rightarrow> pyfloat" where
  "rnd x =
     (if x = 0 then Fin 0
      else let r = of_int (round_even (x / 2 powi ulp_exp x)) * 2 powi ulp_exp x
           in if max_double < \<bar>r\<bar> then (if 0 < x then PInf else NInf) else Fin r)"

instantiation pyfloat :: "{plus, minus, times}"
begin

fun plus_pyfloat :: "pyfloat \<Rightarrow> pyfloat \<Rightarrow> pyfloat" where
  "plus_pyfloat (Fin a) (Fin b) = rnd (a + b)"
| "plus_pyfloat (Fin a) PInf = PInf"
| "plus_pyfloat (Fin a) NInf = NInf"
| "plus_pyfloat PInf (Fin b) = PInf"
| "plus_pyfloat NInf (Fin b) = NInf"
| "plus_pyfloat PInf PInf = PInf"
| "plus_pyfloat NInf NInf = NInf"
| "plus_pyfloat PInf NInf = NaN"
| "plus_pyfloat NInf PInf = NaN"
| "plus_pyfloat NaN b = NaN"
| "plus_pyfloat a NaN = NaN"

fun minus_pyfloat :: "pyfloat \<Rightarrow> pyfloat \<Rightarrow> pyfloat" where
  "minus_pyfloat (Fin a) (Fin b) = rnd (a - b)"
| "minus_pyfloat (Fin a) PInf = NInf"
| "minus_pyfloat (Fin a) NInf = PInf"
| "minus_pyfloat PInf (Fin b) = PInf"
| "minus_pyfloat NInf (Fin b) = NInf"
| "minus_pyfloat PInf NInf = PInf"
| "minus_pyfloat NInf PInf = NInf"
| "minus_pyfloat PInf PInf = NaN"
| "minus_pyfloat NInf NInf = NaN"
| "minus_pyfloat NaN b = NaN"
| "minus_pyfloat a NaN = NaN"

fun times_pyfloat :: "pyfloat \<Rightarrow> pyfloat \<Rightarrow> pyfloat" where
  "times_pyfloat (Fin a) (Fin b) = rnd (a * b)"
| "times_pyfloat (Fin a) PInf = (if a = 0 then NaN else if 0 < a then PInf else NInf)"
| "times_pyfloat (Fin a) NInf = (if a = 0 then NaN else if 0 < a then NInf else PInf)"
| "times_pyfloat PInf (Fin b) = (if b = 0 then NaN else if 0 < b then PInf else NInf)"
| "times_pyfloat NInf (Fin b) = (if b = 0 then NaN else if 0 < b then NInf else PInf)"
| "times_pyfloat PInf PInf = PInf"
| "times_pyfloat NInf NInf = PInf"
| "times_pyfloat PInf NInf = NInf"
| "times_pyfloat NInf PInf = NInf"
| "times_pyfloat NaN b = NaN"
| "times_pyfloat a NaN = NaN"

instance ..

end

text \<open>
  Division in the hardware, for a divisor that is not zero; by a zero it would give an
  infinity or NaN, which is written out here for a positive zero.
\<close>

fun fdiv :: "pyfloat \<Rightarrow> pyfloat \<Rightarrow> pyfloat" where
  "fdiv (Fin a) (Fin b) =
     (if b = 0 then (if a = 0 then NaN else if 0 < a then PInf else NInf) else rnd (a / b))"
| "fdiv (Fin a) PInf = Fin 0"
| "fdiv (Fin a) NInf = Fin 0"
| "fdiv PInf (Fin b) = (if 0 \<le> b then PInf else NInf)"
| "fdiv NInf (Fin b) = (if 0 \<le> b then NInf else PInf)"
| "fdiv PInf PInf = NaN"
| "fdiv PInf NInf = NaN"
| "fdiv NInf PInf = NaN"
| "fdiv NInf NInf = NaN"
| "fdiv NaN b = NaN"
| "fdiv a NaN = NaN"

fun fsqrt :: "pyfloat \<Rightarrow> pyfloat" where
  "fsqrt (Fin a) = (if a < 0 then NaN else rnd (sqrt a))"
| "fsqrt PInf = PInf"
| "fsqrt NInf = NaN"
| "fsqrt NaN = NaN"

datatype error = ZeroDivisionError | TypeError | ValueError | RuntimeError string

text \<open>
  Python's float division, the \<^verbatim>\<open>/\<close> of line 40: it raises
  \<^verbatim>\<open>ZeroDivisionError\<close> when the divisor is zero, whatever the dividend, and divides
  in the hardware otherwise.
\<close>

definition py_div :: "pyfloat \<Rightarrow> pyfloat \<Rightarrow> error + pyfloat" where
  "py_div a b = (if b = Fin 0 then Inl ZeroDivisionError else Inr (fdiv a b))"

section \<open>Vectors\<close>

text \<open>
  \<^verbatim>\<open>MVector(x, y, z)\<close>, built at lines 29 to 31 from a position, a list of three
  floats. The type is also used with real coordinates, for the formula of the
  specification.

  Modelled from the spec: the class \<^verbatim>\<open>MVector\<close> belongs to the host's library, which
  is not part of the repository. Following section 3 of the specification, \<open>+\<close> and
  \<open>-\<close> work coordinate by coordinate, \<open>*\<close> is the dot product between two vectors
  and the scaling of a vector by a float, \<^verbatim>\<open>length()\<close> is the magnitude and
  \<^verbatim>\<open>normal()\<close> the vector of unit length. Each is taken to be computed in doubles
  in the plain way: the dot product sums its three products from left to right, the
  magnitude is the square root of the dot product of the vector with itself, and
  \<^verbatim>\<open>normal()\<close> divides each coordinate by the magnitude.
\<close>

datatype 'a MVector = MVector (vec_x: 'a) (vec_y: 'a) (vec_z: 'a)

instantiation MVector :: (plus) plus
begin

definition plus_MVector :: "'a MVector \<Rightarrow> 'a MVector \<Rightarrow> 'a MVector" where
  "plus_MVector u v = MVector (vec_x u + vec_x v) (vec_y u + vec_y v) (vec_z u + vec_z v)"

instance ..

end

instantiation MVector :: (minus) minus
begin

definition minus_MVector :: "'a MVector \<Rightarrow> 'a MVector \<Rightarrow> 'a MVector" where
  "minus_MVector u v = MVector (vec_x u - vec_x v) (vec_y u - vec_y v) (vec_z u - vec_z v)"

instance ..

end

definition dot :: "'a::{plus, times} MVector \<Rightarrow> 'a MVector \<Rightarrow> 'a" where
  "dot u v = vec_x u * vec_x v + vec_y u * vec_y v + vec_z u * vec_z v"

definition scale :: "'a::times MVector \<Rightarrow> 'a \<Rightarrow> 'a MVector" where
  "scale v c = MVector (vec_x v * c) (vec_y v * c) (vec_z v * c)"

definition length_vec :: "pyfloat MVector \<Rightarrow> pyfloat" where
  "length_vec v = fsqrt (dot v v)"

text \<open>
  What \<^verbatim>\<open>normal()\<close> yields for a vector of magnitude zero is left open by the
  specification ("undefined/error"); it is the parameter \<open>nz\<close>: an error the library
  raises, or the vector it hands back.
\<close>

definition normal :: "error + pyfloat MVector \<Rightarrow> pyfloat MVector \<Rightarrow> error + pyfloat MVector" where
  "normal nz v =
     (let len = length_vec v
      in if len = Fin 0 then nz
         else Inr (MVector (fdiv (vec_x v) len) (fdiv (vec_y v) len) (fdiv (vec_z v) len)))"

text \<open>A vector of real coordinates as a vector of floats.\<close>

definition fvec_of :: "real MVector \<Rightarrow> pyfloat MVector" where
  "fvec_of v = MVector (Fin (vec_x v)) (Fin (vec_y v)) (Fin (vec_z v))"

section \<open>The host scene\<close>

datatype node = Joint string | Locator nat | Other string

text \<open>
  The part of the Maya scene the script reads and writes: the world-space rotate pivot
  of every joint, the current selection, the locators created so far (a locator is
  named by its index) and the lines written by \<^verbatim>\<open>MGlobal.displayInfo\<close> (a line
  shows the three coordinates of a vector, kept here as the vector).
\<close>

record scene =
  joints :: "(string \<times> pyfloat MVector) list"
  selection :: "node list"
  locators :: "pyfloat MVector list"
  info_log :: "pyfloat MVector list"

definition displayInfo :: "pyfloat MVector \<Rightarrow> scene \<Rightarrow> scene" where
  "displayInfo v s = s\<lparr>info_log := info_log s @ [v]\<rparr>"

section \<open>get\_pole\_vec\_pos\<close>

text \<open>The local variables of \<^verbatim>\<open>get_pole_vec_pos\<close> when it reaches its last lines.\<close>

record locals =
  line :: "pyfloat MVector"
  source_point :: "pyfloat MVector"
  closest_point_scale_val :: pyfloat
  closest_mid_point :: "pyfloat MVector"
  root_to_mid_mag :: pyfloat
  mid_to_end_mag :: pyfloat
  total_mag :: pyfloat
  pole_vector :: "pyfloat MVector"

text \<open>Lines 29 to 51: every assignment in order, with the two places that can fail.\<close>

definition pole_locals ::
  "error + pyfloat MVector \<Rightarrow> pyfloat MVector \<Rightarrow> pyfloat MVector \<Rightarrow> pyfloat MVector \<Rightarrow> pyfloat
     \<Rightarrow> error + locals" where
  "pole_locals nz root_vec mid_vec end_vec multiplier =
     (let line = end_vec - root_vec;
          source_point = mid_vec - root_vec
      in case py_div (dot line source_point) (dot line line) of
           Inl e \<Rightarrow> Inl e
         | Inr q \<Rightarrow>
             (let closest_point_scale_val = q;
                  closest_mid_point = scale line closest_point_scale_val + root_vec;
                  root_to_mid_mag = length_vec (mid_vec - root_vec);
                  mid_to_end_mag = length_vec (end_vec - mid_vec);
                  total_mag = (root_to_mid_mag + mid_to_end_mag) * multiplier
              in case normal nz (mid_vec - closest_mid_point) of
                   Inl e \<Rightarrow> Inl e
                 | Inr n \<Rightarrow>
                     Inr \<lparr>line = line, source_point = source_point,
                          closest_point_scale_val = closest_point_scale_val,
                          closest_mid_point = closest_mid_point,
                          root_to_mid_mag = root_to_mid_mag,
                          mid_to_end_mag = mid_to_end_mag, total_mag = total_mag,
                          pole_vector = scale n total_mag + mid_vec\<rparr>))"

text \<open>
  The whole function: the computation, then line 53 shows the result and line 55
  returns it. An exception leaves the scene as it was.
\<close>

definition get_pole_vec_pos ::
  "error + pyfloat MVector \<Rightarrow> pyfloat MVector \<Rightarrow> pyfloat MVector \<Rightarrow> pyfloat MVector \<Rightarrow> pyfloat
     \<Rightarrow> scene \<Rightarrow> (error + pyfloat MVector) \<times> scene" where
  "get_pole_vec_pos nz root_pos mid_pos end_pos multiplier s =
     (case pole_locals nz root_pos mid_pos end_pos multiplier of
        Inl e \<Rightarrow> (Inl e, s)
      | Inr l \<Rightarrow> (Inr (pole_vector l), displayInfo (pole_vector l) s))"

section \<open>place\_locator and main\<close>

definition place_locator :: "pyfloat MVector \<Rightarrow> scene \<Rightarrow> node \<times> scene" where
  "place_locator position s =
     (let locator = Locator (length (locators s))
      in (locator, s\<lparr>locators := locators s @ [position], selection := [locator]\<rparr>))"

text \<open>\<^verbatim>\<open>cmds.ls(selection=True, type="joint")\<close>: the selected nodes that are joints.\<close>

fun ls_selection_joints :: "node list \<Rightarrow> string list" where
  "ls_selection_joints [] = []"
| "ls_selection_joints (Joint n # ns) = n # ls_selection_joints ns"
| "ls_selection_joints (_ # ns) = ls_selection_joints ns"

text \<open>
  \<^verbatim>\<open>cmds.xform(jnt, query=True, rotatePivot=True, worldSpace=True)\<close>; the host
  raises for a name that matches no object of the scene.
\<close>

definition xform_query :: "scene \<Rightarrow> string \<Rightarrow> error + pyfloat MVector" where
  "xform_query s jnt =
     (case map_of (joints s) jnt of
        None \<Rightarrow> Inl ValueError
      | Some p \<Rightarrow> Inr p)"

text \<open>The list comprehension of lines 88 to 91; the first failing query ends it.\<close>

fun positions_of :: "scene \<Rightarrow> string list \<Rightarrow> error + pyfloat MVector list" where
  "positions_of s [] = Inr []"
| "positions_of s (jnt # jnts) =
     (case xform_query s jnt of
        Inl e \<Rightarrow> Inl e
      | Inr p \<Rightarrow> (case positions_of s jnts of Inl e \<Rightarrow> Inl e | Inr ps \<Rightarrow> Inr (p # ps)))"

text \<open>
  \<^verbatim>\<open>main\<close>: \<^verbatim>\<open>cmds.error\<close> raises a \<^verbatim>\<open>RuntimeError\<close> with its message; the call
  \<^verbatim>\<open>get_pole_vec_pos(*positions, 1)\<close> needs exactly three positions and passes the
  multiplier 1.
\<close>

definition main :: "error + pyfloat MVector \<Rightarrow> scene \<Rightarrow> (error + unit) \<times> scene" where
  "main nz s =
     (let jnts = ls_selection_joints (selection s)
      in if length jnts \<noteq> 3 then (Inl (RuntimeError ''Select three joints''), s)
         else case positions_of s jnts of
                Inl e \<Rightarrow> (Inl e, s)
              | Inr [root_pos, mid_pos, end_pos] \<Rightarrow>
                  (case get_pole_vec_pos nz root_pos mid_pos end_pos (Fin 1) s of
                     (Inl e, s') \<Rightarrow> (Inl e, s')
                   | (Inr pole, s') \<Rightarrow> (Inr (), snd (place_locator pole s')))
              | Inr _ \<Rightarrow> (Inl TypeError, s))"

section \<open>The formula of the specification\<close>

text \<open>
  Section 4.1 of the specification, step by step, in exact real arithmetic:
  \<open>closest = root + line \<times> t\<close> with \<open>t = (line \<cdot> source) / (line \<cdot> line)\<close>,
  \<open>total_length = (\<parallel>mid - root\<parallel> + \<parallel>end - mid\<parallel>) \<times> multiplier\<close> and
  \<open>pole = mid + normalize (mid - closest) \<times> total_length\<close>, where \<open>normalize\<close>
  divides a vector by its magnitude.
\<close>

definition norm_vec :: "real MVector \<Rightarrow> real" where
  "norm_vec v = sqrt (dot v v)"

definition spec_closest :: "real MVector \<Rightarrow> real MVector \<Rightarrow> real MVector \<Rightarrow> real MVector" where
  "spec_closest root_pos mid_pos end_pos =
     root_pos + scale (end_pos - root_pos)
       (dot (end_pos - root_pos) (mid_pos - root_pos) / dot (end_pos - root_pos) (end_pos - root_pos))"

definition spec_total_length :: "real MVector \<Rightarrow> real MVector \<Rightarrow> real MVector \<Rightarrow> real \<Rightarrow> real" where
  "spec_total_length root_pos mid_pos end_pos k =
     (norm_vec (mid_pos - root_pos) + norm_vec (end_pos - mid_pos)) * k"

definition spec_normalize :: "real MVector \<Rightarrow> real MVector" where
  "spec_normalize v = scale v (1 / norm_vec v)"

definition spec_pole :: "real MVector \<Rightarrow> real MVector \<Rightarrow> real MVector \<Rightarrow> real \<Rightarrow> real MVector" where
  "spec_pole root_pos mid_pos end_pos k =
     mid_pos + scale (spec_normalize (mid_pos - spec_closest root_pos mid_pos end_pos))
       (spec_total_length root_pos mid_pos end_pos k)"

text \<open>
  A point lies on the line through \<open>a\<close> and \<open>b\<close> when its offset from \<open>a\<close> is
  parallel to \<open>b - a\<close>, that is, when their cross product vanishes.
\<close>

definition cross :: "real MVector \<Rightarrow> real MVector \<Rightarrow> real MVector" where
  "cross u v =
     MVector (vec_y u * vec_z v - vec_z u * vec_y v)
             (vec_z u * vec_x v - vec_x u * vec_z v)
             (vec_x u * vec_y v - vec_y u * vec_x v)"

definition on_line :: "real MVector \<Rightarrow> real MVector \<Rightarrow> real MVector \<Rightarrow> bool" where
  "on_line a b p = (cross (b - a) (p - a) = MVector 0 0 0)"

section \<open>Runs without rounding\<close>

text \<open>
  A real number is a double when rounding leaves it as it is. A run of
  \<^verbatim>\<open>get_pole_vec_pos\<close> is exact when every intermediate result of lines 34 to 51,
  computed in real arithmetic, is a double: then no operation rounds, overflows or
  underflows, and the floats of the run are the reals of the formula.
\<close>

definition is_double :: "real \<Rightarrow> bool" where
  "is_double x = (rnd x = Fin x)"

definition exact_vec :: "real MVector \<Rightarrow> bool" where
  "exact_vec v = (is_double (vec_x v) \<and> is_double (vec_y v) \<and> is_double (vec_z v))"

definition exact_dot :: "real MVector \<Rightarrow> real MVector \<Rightarrow> bool" where
  "exact_dot u v =
     (is_double (vec_x u * vec_x v) \<and> is_double (vec_y u * vec_y v) \<and> is_double (vec_z u * vec_z v)
      \<and> is_double (vec_x u * vec_x v + vec_y u * vec_y v) \<and> is_double (dot u v))"

definition exact_norm :: "real MVector \<Rightarrow> bool" where
  "exact_norm v = (exact_dot v v \<and> is_double (norm_vec v))"

text \<open>Lines 34 to 43 and the offset of line 51: the closest point is computed exactly.\<close>

definition exact_closest :: "real MVector \<Rightarrow> real MVector \<Rightarrow> real MVector \<Rightarrow> bool" where
  "exact_closest root_pos mid_pos end_pos =
     (exact_vec (end_pos - root_pos) \<and> exact_vec (mid_pos - root_pos)
      \<and> exact_dot (end_pos - root_pos) (mid_pos - root_pos)
      \<and> exact_dot (end_pos - root_pos) (end_pos - root_pos)
      \<and> is_double (dot (end_pos - root_pos) (mid_pos - root_pos)
                    / dot (end_pos - root_pos) (end_pos - root_pos))
      \<and> exact_vec (scale (end_pos - root_pos)
                     (dot (end_pos - root_pos) (mid_pos - root_pos)
                      / dot (end_pos - root_pos) (end_pos - root_pos)))
      \<and> exact_vec (spec_closest root_pos mid_pos end_pos)
      \<and> exact_vec (mid_pos - spec_closest root_pos mid_pos end_pos))"

text \<open>Lines 46 to 48: the two magnitudes and the total.\<close>

definition exact_total :: "real MVector \<Rightarrow> real MVector \<Rightarrow> real MVector \<Rightarrow> real \<Rightarrow> bool" where
  "exact_total root_pos mid_pos end_pos k =
     (exact_vec (mid_pos - root_pos) \<and> exact_norm (mid_pos - root_pos)
      \<and> exact_vec (end_pos - mid_pos) \<and> exact_norm (end_pos - mid_pos)
      \<and> is_double (norm_vec (mid_pos - root_pos) + norm_vec (end_pos - mid_pos))
      \<and> is_double (spec_total_length root_pos mid_pos end_pos k))"

text \<open>Line 51: the normalisation, the scaling and the final sum.\<close>

definition exact_offset :: "real MVector \<Rightarrow> real MVector \<Rightarrow> real MVector \<Rightarrow> real \<Rightarrow> bool" where
  "exact_offset root_pos mid_pos end_pos k =
     (exact_norm (mid_pos - spec_closest root_pos mid_pos end_pos)
      \<and> exact_vec (spec_normalize (mid_pos - spec_closest root_pos mid_pos end_pos))
      \<and> exact_vec (scale (spec_normalize (mid_pos - spec_closest root_pos mid_pos end_pos))
                     (spec_total_length root_pos mid_pos end_pos k))
      \<and> exact_vec (spec_pole root_pos mid_pos end_pos k))"

definition exact_run :: "real MVector \<Rightarrow> real MVector \<Rightarrow> real MVector \<Rightarrow> real \<Rightarrow> bool" where
  "exact_run root_pos mid_pos end_pos k =
     (exact_closest root_pos mid_pos end_pos \<and> exact_total root_pos mid_pos end_pos k
      \<and> exact_offset root_pos mid_pos end_pos k)"

section \<open>Statements about the returned point\<close>


text \<open>
  Concrete values for the examples: scenes, a library that hands a zero vector back and
  one that raises for it.
\<close>

definition empty_scene :: scene where
  "empty_scene = \<lparr>joints = [], selection = [], locators = [], info_log = []\<rparr>"

definition zero_normal :: "error + pyfloat MVector" where
  "zero_normal = Inr (fvec_of (MVector 0 0 0))"

definition raising_normal :: "error + pyfloat MVector" where
  "raising_normal = Inl (RuntimeError ''normal() of a zero vector'')"

definition two_joints_scene :: scene where
  "two_joints_scene =
     \<lparr>joints = [(''shoulder'', fvec_of (MVector 0 0 0)), (''elbow'', fvec_of (MVector 3 4 0))],
      selection = [Joint ''shoulder'', Joint ''elbow''], locators = [], info_log = []\<rparr>"

definition four_joints_scene :: scene where
  "four_joints_scene =
     \<lparr>joints = [(''shoulder'', fvec_of (MVector 0 0 0)), (''elbow'', fvec_of (MVector 3 4 0)),
                (''wrist'', fvec_of (MVector 6 0 0)), (''hand'', fvec_of (MVector 7 0 0))],
      selection = [Joint ''shoulder'', Joint ''elbow'', Joint ''wrist'', Joint ''hand''],
      locators = [], info_log = []\<rparr>"

definition three_joints_scene :: scene where
  "three_joints_scene =
     \<lparr>joints = [(''shoulder'', fvec_of (MVector 0 0 0)), (''elbow'', fvec_of (MVector 3 4 0)),
                (''wrist'', fvec_of (MVector 6 0 0))],
      selection = [Joint ''shoulder'', Joint ''elbow'', Joint ''wrist''],
      locators = [], info_log = []\<rparr>"

section \<open>Rounding\<close>

lemma round_even_near:
  assumes "\<bar>m - of_int n\<bar> < 1 / 2"
  shows "round_even m = n"
proof (cases "of_int n \<le> m")
  case True
  with assms have "\<lfloor>m\<rfloor> = n" by (simp add: floor_eq_iff abs_less_iff)
  with assms True show ?thesis by (simp add: round_even_def Let_def abs_less_iff)
next
  case False
  with assms have f: "\<lfloor>m\<rfloor> = n - 1" by (simp add: floor_eq_iff abs_less_iff)
  have "1 / 2 < m - of_int (n - 1)" using assms False by (simp add: abs_less_iff)
  with f show ?thesis by (simp add: round_even_def Let_def)
qed

lemma round_even_of_int: "round_even (of_int n) = n"
  by (rule round_even_near) simp

lemma round_even_ties: "round_even (5 / 2) = 2" "round_even (7 / 2) = 4" "round_even (- (5 / 2)) = - 2"
proof -
  have "\<lfloor>5 / 2 :: real\<rfloor> = 2" "\<lfloor>7 / 2 :: real\<rfloor> = 3" "\<lfloor>- (5 / 2) :: real\<rfloor> = - 3"
    by (simp_all add: floor_eq_iff)
  then show "round_even (5 / 2) = 2" "round_even (7 / 2) = 4" "round_even (- (5 / 2)) = - 2"
    by (simp_all add: round_even_def Let_def)
qed

lemma powi_powr: "(2::real) powi e = 2 powr of_int e"
  by (simp add: powr_real_of_int' power_int_def inverse_eq_divide power_one_over)

lemma ulp_exp_normal:
  assumes "2 powi (e + 52) \<le> \<bar>x\<bar>" and "\<bar>x\<bar> < 2 powi (e + 53)" and "- 1074 \<le> e"
  shows "ulp_exp x = e"
proof -
  have pos: "0 < \<bar>x\<bar>" using assms(1) by (smt (verit) zero_less_power_int)
  have "\<lfloor>log 2 \<bar>x\<bar>\<rfloor> = e + 52"
    using assms(1,2) pos
    by (subst floor_log_eq_powr_iff) (simp_all add: powi_powr add.commute add.left_commute)
  with assms(3) show ?thesis by (simp add: ulp_exp_def)
qed


lemma ulp_exp_le:
  assumes "x \<noteq> 0" and "\<bar>x\<bar> < 2 powi (e + 53)" and "- 1074 \<le> e"
  shows "ulp_exp x \<le> e"
proof -
  have "\<bar>x\<bar> < 2 powr of_int (e + 53)"
    using assms(2) by (simp only: powi_powr)
  moreover have "0 < \<bar>x\<bar>" using assms(1) by simp
  ultimately have "log 2 \<bar>x\<bar> < of_int (e + 53)"
    by (subst log_less_iff) simp_all
  then have "\<lfloor>log 2 \<bar>x\<bar>\<rfloor> < e + 53" by (simp only: floor_less_iff)
  with assms(3) show ?thesis by (simp add: ulp_exp_def)
qed

text \<open>Rounding to a given neighbour, and overflow.\<close>

lemma rnd_eq:
  assumes "x \<noteq> 0" and "ulp_exp x = e" and "\<bar>x / 2 powi e - of_int n\<bar> < 1 / 2"
    and "\<bar>of_int n * 2 powi e\<bar> \<le> max_double"
  shows "rnd x = Fin (of_int n * 2 powi e)"
  using assms by (simp add: rnd_def Let_def round_even_near)


text \<open>A number of at most 53 significant bits in the exponent range is a double.\<close>

lemma rnd_dyadic:
  assumes "\<bar>n\<bar> < 2 ^ 53" and "- 1074 \<le> e" and "\<bar>of_int n * 2 powi e\<bar> \<le> max_double"
  shows "rnd (of_int n * 2 powi e) = Fin (of_int n * 2 powi e)"
proof (cases "n = 0")
  case True
  then show ?thesis by (simp add: rnd_def)
next
  case False
  define x :: real where "x = of_int n * 2 powi e"
  have x0: "x \<noteq> 0" using False by (simp add: x_def)
  have "\<bar>x\<bar> = \<bar>of_int n\<bar> * 2 powi e" by (simp add: x_def abs_mult)
  also have "\<dots> < 2 ^ 53 * 2 powi e"
    using assms(1) by (intro mult_strict_right_mono) (simp_all add: of_int_abs [symmetric] del: of_int_abs)
  also have "\<dots> = 2 powi (e + 53)"
    by (simp add: power_int_add)
  finally have "ulp_exp x \<le> e" using x0 assms(2) by (intro ulp_exp_le)
  then obtain d :: nat where d: "e = ulp_exp x + int d"
    by (metis zle_iff_zadd)
  have "x / 2 powi ulp_exp x = of_int n * (2 powi e / 2 powi ulp_exp x)"
    by (simp add: x_def)
  also have "2 powi e / 2 powi ulp_exp x = (2::real) ^ d"
    by (subst d) (simp add: power_int_add)
  finally have m: "x / 2 powi ulp_exp x = of_int (n * 2 ^ d)" by simp
  have "of_int (round_even (x / 2 powi ulp_exp x)) * 2 powi ulp_exp x
      = x / 2 powi ulp_exp x * 2 powi ulp_exp x"
    by (simp only: m round_even_of_int)
  also have "\<dots> = x" by simp
  finally have "of_int (round_even (x / 2 powi ulp_exp x)) * 2 powi ulp_exp x = x" .
  then show ?thesis
    using x0 assms(3) by (simp add: rnd_def Let_def x_def [symmetric])
qed

lemma is_double_div_pow2:
  assumes "\<bar>n\<bar> < 2 ^ 53" and "k \<le> 1074"
  shows "is_double (of_int n / 2 ^ k)"
proof -
  have e: "of_int n / 2 ^ k = of_int n * (2::real) powi (- int k)"
    by (simp add: power_int_minus field_simps)
  have "\<bar>of_int n / (2::real) ^ k\<bar> \<le> \<bar>of_int n\<bar>"
    by (simp add: abs_divide divide_le_eq_1 mult_le_cancel_left1 field_simps)
  also have "\<dots> \<le> 2 ^ 53" using assms(1) by (simp add: of_int_abs [symmetric] del: of_int_abs)
  also have "\<dots> \<le> max_double" by (simp add: max_double_def)
  finally have "\<bar>of_int n * (2::real) powi (- int k)\<bar> \<le> max_double" by (simp only: e)
  with assms show ?thesis
    unfolding is_double_def e by (intro rnd_dyadic) simp_all
qed

lemma is_double_of_int: "\<bar>n\<bar> < 2 ^ 53 \<Longrightarrow> is_double (of_int n)"
  using is_double_div_pow2 [of n 0] by simp


lemma rnd_0: "rnd 0 = Fin 0"
  by (simp add: rnd_def)

lemma rnd_numeral: "(numeral w :: int) < 2 ^ 53 \<Longrightarrow> rnd (numeral w) = Fin (numeral w)"
  using is_double_of_int [of "numeral w"] by (simp add: is_double_def)

lemma rnd_neg_numeral: "(numeral w :: int) < 2 ^ 53 \<Longrightarrow> rnd (- numeral w) = Fin (- numeral w)"
  using is_double_of_int [of "- numeral w"] by (simp add: is_double_def)

lemma rnd_1: "rnd 1 = Fin 1"
  using is_double_of_int [of 1] by (simp add: is_double_def)

lemma is_double_0: "is_double 0"
  by (simp add: is_double_def rnd_0)

lemma is_double_1: "is_double 1"
  by (simp add: is_double_def rnd_1)

lemma is_double_numeral: "(numeral w :: int) < 2 ^ 53 \<Longrightarrow> is_double (numeral w)"
  by (simp add: is_double_def rnd_numeral)

lemma is_double_neg_numeral: "(numeral w :: int) < 2 ^ 53 \<Longrightarrow> is_double (- numeral w)"
  by (simp add: is_double_def rnd_neg_numeral)

section \<open>Geometry over the reals\<close>

lemma dot_self_eq_0: "(dot v v = 0) = (v = MVector 0 0 (0::real))"
  by (cases v) (simp add: dot_def sum_squares_eq_zero_iff add_nonneg_eq_0_iff)




lemma minus_eq_zero: "((a::real MVector) - b = MVector 0 0 0) = (a = b)"
  by (cases a; cases b) (simp add: minus_MVector_def)



lemma root_neq_end_dot:
  "root_pos \<noteq> end_pos \<Longrightarrow> dot (end_pos - root_pos) (end_pos - root_pos) \<noteq> (0::real)"
  by (simp add: dot_self_eq_0 minus_eq_zero)

lemma closest_mid_point_spec:
  "scale (end_pos - root_pos) c + root_pos = root_pos + scale (end_pos - root_pos) (c::real)"
  by (simp add: plus_MVector_def add.commute)

subsection \<open>Geometry of the formula\<close>















lemma on_line_closest:
  assumes "root_pos \<noteq> end_pos" and "on_line root_pos end_pos mid_pos"
  shows "mid_pos - spec_closest root_pos mid_pos end_pos = MVector 0 0 0"
proof -
  obtain rx ry rz where r: "root_pos = MVector rx ry rz" by (cases root_pos)
  obtain mx my mz where m: "mid_pos = MVector mx my mz" by (cases mid_pos)
  obtain ex ey ez where e: "end_pos = MVector ex ey ez" by (cases end_pos)
  define lx ly lz where "lx = ex - rx" and "ly = ey - ry" and "lz = ez - rz"
  define sx sy sz where "sx = mx - rx" and "sy = my - ry" and "sz = mz - rz"
  define d where "d = lx * lx + ly * ly + lz * lz"
  have d: "d \<noteq> 0"
    using root_neq_end_dot [OF assms(1)]
    by (simp add: r e dot_def minus_MVector_def d_def lx_def ly_def lz_def)
  have c: "ly * sz = lz * sy" "lz * sx = lx * sz" "lx * sy = ly * sx"
    using assms(2)
    by (simp_all add: on_line_def cross_def r m e minus_MVector_def lx_def ly_def lz_def sx_def sy_def sz_def)
  have x: "sx * d = lx * (lx * sx + ly * sy + lz * sz)"
    unfolding d_def using c by algebra
  have y: "sy * d = ly * (lx * sx + ly * sy + lz * sz)"
    unfolding d_def using c by algebra
  have z: "sz * d = lz * (lx * sx + ly * sy + lz * sz)"
    unfolding d_def using c by algebra
  have "sx = lx * ((lx * sx + ly * sy + lz * sz) / d)"
       "sy = ly * ((lx * sx + ly * sy + lz * sz) / d)"
       "sz = lz * ((lx * sx + ly * sy + lz * sz) / d)"
    using d x y z by (simp_all add: field_simps)
  then have "mx - (rx + lx * ((lx * sx + ly * sy + lz * sz) / d)) = 0"
       "my - (ry + ly * ((lx * sx + ly * sy + lz * sz) / d)) = 0"
       "mz - (rz + lz * ((lx * sx + ly * sy + lz * sz) / d)) = 0"
    by (simp_all add: sx_def sy_def sz_def)
  then show ?thesis
    by (simp add: spec_closest_def r m e dot_def scale_def plus_MVector_def minus_MVector_def
        d_def lx_def ly_def lz_def sx_def sy_def sz_def)
qed



lemma sqrt_25: "sqrt 25 = 5"
  using real_sqrt_abs [of 5] by simp

lemma sqrt_100: "sqrt 100 = 10"
  using real_sqrt_abs [of 10] by simp

lemma sqrt_9: "sqrt 9 = 3"
  using real_sqrt_abs [of 3] by simp

section \<open>Exact runs compute the formula\<close>

lemma fvec_sub: "exact_vec (u - v) \<Longrightarrow> fvec_of u - fvec_of v = fvec_of (u - v)"
  by (simp add: exact_vec_def is_double_def fvec_of_def minus_MVector_def)

lemma fvec_add: "exact_vec (u + v) \<Longrightarrow> fvec_of u + fvec_of v = fvec_of (u + v)"
  by (simp add: exact_vec_def is_double_def fvec_of_def plus_MVector_def)

lemma fvec_scale: "exact_vec (scale v c) \<Longrightarrow> scale (fvec_of v) (Fin c) = fvec_of (scale v c)"
  by (simp add: exact_vec_def is_double_def fvec_of_def scale_def)

lemma fvec_dot: "exact_dot u v \<Longrightarrow> dot (fvec_of u) (fvec_of v) = Fin (dot u v)"
  by (simp add: exact_dot_def is_double_def fvec_of_def dot_def)



lemma fvec_normal_zero: "normal nz (fvec_of (MVector 0 0 0)) = nz"
  by (simp add: normal_def Let_def length_vec_def dot_def fvec_of_def rnd_0)

lemma py_div_exact:
  "is_double (a / b) \<Longrightarrow> b \<noteq> 0 \<Longrightarrow> py_div (Fin a) (Fin b) = Inr (Fin (a / b))"
  by (simp add: py_div_def is_double_def)

lemma pole_locals_closest:
  assumes "exact_closest root_pos mid_pos end_pos" and "root_pos \<noteq> end_pos"
  shows "pole_locals nz (fvec_of root_pos) (fvec_of mid_pos) (fvec_of end_pos) multiplier =
     (case normal nz (fvec_of (mid_pos - spec_closest root_pos mid_pos end_pos)) of
        Inl e \<Rightarrow> Inl e
      | Inr n \<Rightarrow>
          Inr \<lparr>line = fvec_of (end_pos - root_pos), source_point = fvec_of (mid_pos - root_pos),
               closest_point_scale_val =
                 Fin (dot (end_pos - root_pos) (mid_pos - root_pos)
                        / dot (end_pos - root_pos) (end_pos - root_pos)),
               closest_mid_point = fvec_of (spec_closest root_pos mid_pos end_pos),
               root_to_mid_mag = length_vec (fvec_of mid_pos - fvec_of root_pos),
               mid_to_end_mag = length_vec (fvec_of end_pos - fvec_of mid_pos),
               total_mag =
                 (length_vec (fvec_of mid_pos - fvec_of root_pos)
                    + length_vec (fvec_of end_pos - fvec_of mid_pos)) * multiplier,
               pole_vector =
                 scale n ((length_vec (fvec_of mid_pos - fvec_of root_pos)
                             + length_vec (fvec_of end_pos - fvec_of mid_pos)) * multiplier)
                   + fvec_of mid_pos\<rparr>)"
proof -
  define ln where "ln = end_pos - root_pos"
  define sp where "sp = mid_pos - root_pos"
  define t where "t = dot ln sp / dot ln ln"
  have e: "exact_vec ln" "exact_vec sp" "exact_dot ln sp" "exact_dot ln ln" "is_double t"
    "exact_vec (scale ln t)" "exact_vec (spec_closest root_pos mid_pos end_pos)"
    "exact_vec (mid_pos - spec_closest root_pos mid_pos end_pos)"
    using assms(1) by (simp_all add: exact_closest_def ln_def sp_def t_def)
  have c: "spec_closest root_pos mid_pos end_pos = scale ln t + root_pos"
    by (simp add: spec_closest_def ln_def sp_def t_def closest_mid_point_spec)
  have d: "dot ln ln \<noteq> 0"
    unfolding ln_def using assms(2) by (rule root_neq_end_dot)
  have 1: "fvec_of end_pos - fvec_of root_pos = fvec_of ln"
    using e(1) by (simp add: fvec_sub ln_def)
  have 2: "fvec_of mid_pos - fvec_of root_pos = fvec_of sp"
    using e(2) by (simp add: fvec_sub sp_def)
  have 3: "py_div (dot (fvec_of ln) (fvec_of sp)) (dot (fvec_of ln) (fvec_of ln)) = Inr (Fin t)"
    using e(3,4,5) d by (simp add: fvec_dot py_div_exact t_def)
  have 4: "scale (fvec_of ln) (Fin t) + fvec_of root_pos = fvec_of (spec_closest root_pos mid_pos end_pos)"
    using e(6,7) by (simp add: fvec_scale fvec_add c)
  have 5: "fvec_of mid_pos - fvec_of (spec_closest root_pos mid_pos end_pos)
      = fvec_of (mid_pos - spec_closest root_pos mid_pos end_pos)"
    using e(8) by (simp add: fvec_sub)
  show ?thesis
    unfolding pole_locals_def Let_def 1 2 3 sum.case 4 5
    by (simp add: ln_def sp_def t_def 2 [symmetric] split: sum.splits)
qed


lemma pole_locals_on_line:
  assumes "exact_closest root_pos mid_pos end_pos"
    and "root_pos \<noteq> end_pos" and "on_line root_pos end_pos mid_pos"
  shows "pole_locals nz (fvec_of root_pos) (fvec_of mid_pos) (fvec_of end_pos) multiplier =
     (case nz of
        Inl e \<Rightarrow> Inl e
      | Inr n \<Rightarrow>
          Inr \<lparr>line = fvec_of (end_pos - root_pos), source_point = fvec_of (mid_pos - root_pos),
               closest_point_scale_val =
                 Fin (dot (end_pos - root_pos) (mid_pos - root_pos)
                        / dot (end_pos - root_pos) (end_pos - root_pos)),
               closest_mid_point = fvec_of mid_pos,
               root_to_mid_mag = length_vec (fvec_of mid_pos - fvec_of root_pos),
               mid_to_end_mag = length_vec (fvec_of end_pos - fvec_of mid_pos),
               total_mag =
                 (length_vec (fvec_of mid_pos - fvec_of root_pos)
                    + length_vec (fvec_of end_pos - fvec_of mid_pos)) * multiplier,
               pole_vector =
                 scale n ((length_vec (fvec_of mid_pos - fvec_of root_pos)
                             + length_vec (fvec_of end_pos - fvec_of mid_pos)) * multiplier)
                   + fvec_of mid_pos\<rparr>)"
proof -
  have z: "mid_pos - spec_closest root_pos mid_pos end_pos = MVector 0 0 0"
    using assms(2,3) by (rule on_line_closest)
  then have c: "spec_closest root_pos mid_pos end_pos = mid_pos"
    by (simp add: minus_eq_zero)
  show ?thesis
    by (simp only: pole_locals_closest [OF assms(1,2)] z fvec_normal_zero) (simp only: c)
qed

section \<open>Example values\<close>

lemma sqrt_16: "sqrt 16 = 4"
  using real_sqrt_abs [of 4] by simp

lemma is_double_half: "is_double (1 / 2)"
  using is_double_div_pow2 [of 1 1] by simp

lemmas is_double_simps = is_double_0 is_double_1 is_double_numeral is_double_neg_numeral
  is_double_half

lemmas exact_defs = exact_run_def exact_closest_def exact_total_def exact_offset_def
  exact_norm_def exact_dot_def exact_vec_def

lemmas spec_defs = spec_pole_def spec_closest_def spec_total_length_def spec_normalize_def
  norm_vec_def dot_def scale_def plus_MVector_def minus_MVector_def





lemma exact_closest_on: "exact_closest (MVector 0 0 0) (MVector 3 0 0) (MVector 6 0 0)"
  by (simp add: exact_defs spec_defs is_double_simps)

section \<open>Rounding in the example runs\<close>

text \<open>Rounding a number below \<open>2\<^sup>5\<^sup>3\<close> to the nearest double, away from a tie.\<close>

lemma rnd_near_div:
  assumes "2 ^ 52 \<le> \<bar>x\<bar> * 2 ^ k" and "\<bar>x\<bar> * 2 ^ k < 2 ^ 53" and "k \<le> 1074"
    and "\<bar>x * 2 ^ k - of_int n\<bar> < 1 / 2"
  shows "rnd x = Fin (of_int n / 2 ^ k)"
proof -
  have p: "(2::real) powi (- int k) = 1 / 2 ^ k"
    by (simp add: power_int_minus field_simps)
  have x0: "x \<noteq> 0" using assms(1) by auto
  have "(2::real) powi (- int k + 52) = 2 ^ 52 / 2 ^ k"
    by (subst power_int_add) (simp_all add: p)
  then have "2 powi (- int k + 52) \<le> \<bar>x\<bar>"
    using assms(1) by (simp only: ) (simp add: field_simps)
  moreover have "(2::real) powi (- int k + 53) = 2 ^ 53 / 2 ^ k"
    by (subst power_int_add) (simp_all add: p)
  then have "\<bar>x\<bar> < 2 powi (- int k + 53)"
    using assms(2) by (simp only: ) (simp add: field_simps)
  ultimately have u: "ulp_exp x = - int k"
    using assms(3) by (intro ulp_exp_normal) simp_all
  have "\<bar>of_int n\<bar> < \<bar>x * 2 ^ k\<bar> + 1 / 2"
    using assms(4) by linarith
  also have "\<dots> < 2 ^ 53 + 1 / 2"
    using assms(2) by (simp add: abs_mult)
  finally have "\<bar>of_int n :: real\<bar> < 2 ^ 53 + 1"
    by linarith
  then have "\<bar>n\<bar> < 2 ^ 53 + 1"
    by (metis (mono_tags, opaque_lifting) of_int_1 of_int_abs of_int_add of_int_less_iff of_int_numeral of_int_power)
  then have n: "\<bar>of_int n :: real\<bar> \<le> 2 ^ 53"
    by (simp add: of_int_abs [symmetric] del: of_int_abs) 
  have "\<bar>of_int n * (2::real) powi (- int k)\<bar> = \<bar>of_int n\<bar> / 2 ^ k"
    by (simp add: p abs_mult abs_divide)
  also have "\<dots> \<le> \<bar>of_int n\<bar>"
    by (simp add: divide_le_eq_1 mult_le_cancel_left1 field_simps)
  also have "\<dots> \<le> max_double" using n by (simp add: max_double_def)
  finally have m: "\<bar>of_int n * (2::real) powi (- int k)\<bar> \<le> max_double" .
  have "rnd x = Fin (of_int n * 2 powi (- int k))"
    using x0 u _ m by (rule rnd_eq) (use assms(4) in \<open>simp add: p\<close>)
  then show ?thesis by (simp add: p)
qed

lemma sqrt_lower: "0 \<le> a \<Longrightarrow> a\<^sup>2 < x \<Longrightarrow> a < sqrt x"
  by (rule real_less_rsqrt)

lemma sqrt_upper: "0 \<le> b \<Longrightarrow> x < b\<^sup>2 \<Longrightarrow> sqrt x < b"
  by (rule real_less_lsqrt) simp_all

lemma sqrt_5_enclosure:
  "10070354910243151 / 2 ^ 52 < sqrt 5" "sqrt 5 < 10070354910243153 / 2 ^ 52"
  by (rule sqrt_lower; simp add: power2_eq_square)
     (rule sqrt_upper; simp add: power2_eq_square)

lemma rnd_sqrt_5: "rnd (sqrt 5) = Fin (5035177455121576 / 2 ^ 51)"
proof -
  have b: "10070354910243151 < sqrt 5 * 2 ^ 52" "sqrt 5 * 2 ^ 52 < 10070354910243153"
    using sqrt_5_enclosure by (simp_all add: field_simps)
  have "2 ^ 52 \<le> \<bar>sqrt 5\<bar> * 2 ^ 51"
    using b by simp
  moreover have "\<bar>sqrt 5\<bar> * 2 ^ 51 < 2 ^ 53"
    using b by simp
  moreover have "\<bar>sqrt 5 * 2 ^ 51 - of_int 5035177455121576\<bar> < 1 / 2"
    unfolding abs_less_iff using b by simp
  ultimately show ?thesis
    using rnd_near_div [of "sqrt 5" 51 5035177455121576] by simp
qed

text \<open>
  The roundings met in the runs on the example inputs, each either exact or to the
  nearest double.
\<close>

lemma rnd_fact_exact_1: "rnd (910872158600853 / 281474976710656) = Fin (910872158600853 / 281474976710656)"
  using is_double_div_pow2 [of "910872158600853" 48] by (simp add: is_double_def)

lemma rnd_fact_exact_2: "rnd (1192347135311509 / 281474976710656) = Fin (1192347135311509 / 281474976710656)"
  using is_double_div_pow2 [of "1192347135311509" 48] by (simp add: is_double_def)

lemma rnd_fact_round_3: "rnd (1 / 49) = Fin (5882252574524729 / 288230376151711744)"
  using rnd_near_div [of "1 / 49" 58 "5882252574524729"] by simp

lemma rnd_fact_round_4: "rnd (288230376151711721 / 288230376151711744) = Fin (9007199254740991 / 9007199254740992)"
  using rnd_near_div [of "288230376151711721 / 288230376151711744" 53 "9007199254740991"] by simp

lemma rnd_fact_exact_5: "rnd (9007199254740991 / 9007199254740992) = Fin (9007199254740991 / 9007199254740992)"
  using is_double_div_pow2 [of "9007199254740991" 53] by (simp add: is_double_def)

lemma rnd_fact_exact_6: "rnd (1 / 9007199254740992) = Fin (1 / 9007199254740992)"
  using is_double_div_pow2 [of "1" 53] by (simp add: is_double_def)

lemma rnd_fact_exact_7: "rnd (1 / 81129638414606681695789005144064) = Fin (1 / 81129638414606681695789005144064)"
  using is_double_div_pow2 [of "1" 106] by (simp add: is_double_def)

lemma rnd_fact_round_8: "rnd (7 / 25) = Fin (1261007895663739 / 4503599627370496)"
  using rnd_near_div [of "7 / 25" 54 "5044031582654956"] by simp

lemma rnd_fact_round_9: "rnd (31525197391593475 / 4503599627370496) = Fin (7881299347898369 / 1125899906842624)"
  using rnd_near_div [of "31525197391593475 / 4503599627370496" 50 "7881299347898369"] by simp

lemma rnd_fact_exact_10: "rnd (7881299347898369 / 1125899906842624) = Fin (7881299347898369 / 1125899906842624)"
  using is_double_div_pow2 [of "7881299347898369" 50] by (simp add: is_double_def)

lemma rnd_fact_exact_11: "rnd (- (1 / 1125899906842624)) = Fin (- (1 / 1125899906842624))"
  using is_double_div_pow2 [of "-1" 50] by (simp add: is_double_def)

lemma rnd_fact_exact_12: "rnd (1 / 1267650600228229401496703205376) = Fin (1 / 1267650600228229401496703205376)"
  using is_double_div_pow2 [of "1" 100] by (simp add: is_double_def)

lemma rnd_fact_round_13: "rnd (730166745731460135262101046296577 / 1267650600228229401496703205376) = Fin (576)"
  using rnd_near_div [of "730166745731460135262101046296577 / 1267650600228229401496703205376" 43 "5066549580791808"] by simp

lemma rnd_fact_round_14: "rnd (- (1 / 27021597764222976)) = Fin (- (6004799503160661 / 162259276829213363391578010288128))"
  using rnd_near_div [of "- (1 / 27021597764222976)" 107 "-6004799503160661"] by simp

lemma rnd_fact_round_15: "rnd (- (330263972673836355 / 162259276829213363391578010288128)) = Fin (- (5160374573028693 / 2535301200456458802993406410752))"
  using rnd_near_div [of "- (330263972673836355 / 162259276829213363391578010288128)" 101 "-5160374573028693"] by simp

lemma rnd_fact_round_16: "rnd (17747108403195206460579271846571 / 2535301200456458802993406410752) = Fin (3940649673949183 / 562949953421312)"
  using rnd_near_div [of "17747108403195206460579271846571 / 2535301200456458802993406410752" 50 "7881299347898366"] by simp

lemma rnd_fact_round_17: "rnd (- (990791918021509065 / 162259276829213363391578010288128)) = Fin (- (55 / 9007199254740992))"
  using rnd_near_div [of "- (990791918021509065 / 162259276829213363391578010288128)" 100 "-7740561859543040"] by simp

lemma rnd_fact_round_18: "rnd (63050394783186889 / 9007199254740992) = Fin (7881299347898361 / 1125899906842624)"
  using rnd_near_div [of "63050394783186889 / 9007199254740992" 50 "7881299347898361"] by simp

lemma rnd_fact_exact_19: "rnd (- (1 / 562949953421312)) = Fin (- (1 / 562949953421312))"
  using is_double_div_pow2 [of "-1" 49] by (simp add: is_double_def)

lemma rnd_fact_exact_20: "rnd (- (25 / 562949953421312)) = Fin (- (25 / 562949953421312))"
  using is_double_div_pow2 [of "-25" 49] by (simp add: is_double_def)

lemmas rnd_facts = rnd_fact_exact_1
  rnd_fact_exact_2
  rnd_fact_round_3
  rnd_fact_round_4
  rnd_fact_exact_5
  rnd_fact_exact_6
  rnd_fact_exact_7
  rnd_fact_round_8
  rnd_fact_round_9
  rnd_fact_exact_10
  rnd_fact_exact_11
  rnd_fact_exact_12
  rnd_fact_round_13
  rnd_fact_round_14
  rnd_fact_round_15
  rnd_fact_round_16
  rnd_fact_round_17
  rnd_fact_round_18
  rnd_fact_exact_19
  rnd_fact_exact_20


lemma rnd_half: "rnd (1 / 2) = Fin (1 / 2)"
  using is_double_half by (simp add: is_double_def)

lemma rnd_three_eighths: "rnd (- (3 / 8)) = Fin (- (3 / 8))"
  using is_double_div_pow2 [of "- 3" 3] by (simp add: is_double_def)

lemma rnd_minus_1: "rnd (- 1) = Fin (- 1)"
  using is_double_of_int [of "- 1"] by (simp add: is_double_def)

lemmas rnd_simps = rnd_0 rnd_1 rnd_minus_1 rnd_numeral rnd_neg_numeral rnd_half rnd_three_eighths

lemma sqrt_2304: "sqrt 2304 = 48"
  using real_sqrt_abs [of 48] by simp

lemma sqrt_576: "sqrt 576 = 24"
  using real_sqrt_abs [of 24] by simp

lemma sqrt_625: "sqrt 625 = 25"
  using real_sqrt_abs [of 25] by simp

lemma sqrt_900: "sqrt 900 = 30"
  using real_sqrt_abs [of 30] by simp

lemma sqrt_tiny: "sqrt (1 / 81129638414606681695789005144064) = 1 / 9007199254740992"
  using real_sqrt_abs [of "1 / 9007199254740992"] by (simp add: power2_eq_square)

lemmas sqrt_simps = sqrt_9 sqrt_16 sqrt_25 sqrt_100 sqrt_576 sqrt_625 sqrt_900 sqrt_2304 sqrt_tiny

lemmas run_defs = get_pole_vec_pos_def pole_locals_def py_div_def normal_def Let_def
  length_vec_def dot_def scale_def plus_MVector_def minus_MVector_def fvec_of_def




section \<open>From the formula to the function\<close>




lemma pole_locals_coincide:
  "pole_locals nz (fvec_of root_pos) mid_pos (fvec_of root_pos) multiplier = Inl ZeroDivisionError"
  by (cases root_pos)
     (simp add: pole_locals_def py_div_def Let_def dot_def minus_MVector_def fvec_of_def rnd_0)

lemma times_not_finite: "\<not> isfinite t \<Longrightarrow> \<not> isfinite (x * t)"
  by (cases x; cases t) simp_all

lemma plus_not_finite: "\<not> isfinite x \<Longrightarrow> \<not> isfinite (x + y)"
  by (cases x; cases y) simp_all

lemma scaled_not_finite:
  assumes "\<not> isfinite t"
  shows "\<not> isfinite (vec_x (scale n t + m))" "\<not> isfinite (vec_y (scale n t + m))"
    "\<not> isfinite (vec_z (scale n t + m))"
  using assms by (simp_all add: scale_def plus_MVector_def times_not_finite plus_not_finite)

lemma main_three_joints:
  "main zero_normal three_joints_scene =
     (Inr (), three_joints_scene\<lparr>locators := [fvec_of (MVector 3 14 0)],
                selection := [Locator 0], info_log := [fvec_of (MVector 3 14 0)]\<rparr>)"
  by (simp add: main_def three_joints_scene_def xform_query_def place_locator_def displayInfo_def
      run_defs rnd_simps sqrt_simps)

section \<open>The claims\<close>

text \<open>
  C1. When the root and the end position coincide (finite coordinates), the difference
  of line 34 is the zero vector, the divisor \<open>line \<cdot> line\<close> of line 40 is zero and
  Python's float division raises \<^verbatim>\<open>ZeroDivisionError\<close>: for every mid position and
  every multiplier, finite or not, the call fails, returns no value and shows nothing.
\<close>

theorem coincident_root_end_raises:
  "get_pole_vec_pos nz (fvec_of root_pos) mid_pos (fvec_of root_pos) multiplier s
     = (Inl ZeroDivisionError, s)"
  by (simp add: get_pole_vec_pos_def pole_locals_coincide)










text \<open>
  C5, as stated, fails: the function makes no check for a mid position on the line.
  With root \<open>(0,0,0)\<close>, mid \<open>(1,0,0)\<close> and end \<open>(49,0,0)\<close> the quotient \<open>1/49\<close> is
  rounded, the computed closest point is \<open>(1 - 2\<^sup>-\<^sup>5\<^sup>3, 0, 0)\<close>, the offset
  \<open>(2\<^sup>-\<^sup>5\<^sup>3, 0, 0)\<close> is normalised to \<open>(1,0,0)\<close> and the call returns \<open>(50,0,0)\<close>, a
  point of the axis: no error and no default axis, whatever the library does with a
  zero vector (it is never asked).
\<close>

theorem mid_on_line_counterexample:
  "MVector 0 0 0 \<noteq> MVector 49 0 (0::real)
   \<and> on_line (MVector 0 0 0) (MVector 49 0 0) (MVector 1 0 0)
   \<and> get_pole_vec_pos zero_normal (fvec_of (MVector 0 0 0)) (fvec_of (MVector 1 0 0))
        (fvec_of (MVector 49 0 0)) (Fin 1) empty_scene =
       (Inr (fvec_of (MVector 50 0 0)), displayInfo (fvec_of (MVector 50 0 0)) empty_scene)
   \<and> get_pole_vec_pos raising_normal (fvec_of (MVector 0 0 0)) (fvec_of (MVector 1 0 0))
        (fvec_of (MVector 49 0 0)) (Fin 1) empty_scene =
       (Inr (fvec_of (MVector 50 0 0)), displayInfo (fvec_of (MVector 50 0 0)) empty_scene)"
  by (simp add: run_defs on_line_def cross_def rnd_simps rnd_facts sqrt_simps)

text \<open>
  C5, amended. The function has no guard of its own. For root and end apart and mid on
  the line through them, whenever the closest point is computed exactly (lines 34 to 43
  without rounding), the offset is the zero vector and the result is decided by what
  the library's \<^verbatim>\<open>normal()\<close> yields for it: an error it raises ends the call with
  that error; a vector \<open>n\<close> it hands back makes the call return
  \<open>n \<times> total_mag + mid\<close>, for every multiplier.
\<close>

theorem mid_on_line_delegates_to_library:
  assumes "exact_closest root_pos mid_pos end_pos"
    and "root_pos \<noteq> end_pos" and "on_line root_pos end_pos mid_pos"
  shows "get_pole_vec_pos nz (fvec_of root_pos) (fvec_of mid_pos) (fvec_of end_pos) multiplier s =
     (case nz of
        Inl e \<Rightarrow> (Inl e, s)
      | Inr n \<Rightarrow>
          (Inr (scale n ((length_vec (fvec_of mid_pos - fvec_of root_pos)
                           + length_vec (fvec_of end_pos - fvec_of mid_pos)) * multiplier)
                  + fvec_of mid_pos),
           displayInfo
             (scale n ((length_vec (fvec_of mid_pos - fvec_of root_pos)
                          + length_vec (fvec_of end_pos - fvec_of mid_pos)) * multiplier)
                + fvec_of mid_pos) s))"
  by (simp add: get_pole_vec_pos_def pole_locals_on_line [OF assms] split: sum.splits)

theorem mid_on_line_delegates_to_library_witness:
  "exact_closest (MVector 0 0 0) (MVector 3 0 0) (MVector 6 0 0)
   \<and> MVector 0 0 0 \<noteq> MVector 6 0 (0::real)
   \<and> on_line (MVector 0 0 0) (MVector 6 0 0) (MVector 3 0 0)
   \<and> get_pole_vec_pos zero_normal (fvec_of (MVector 0 0 0)) (fvec_of (MVector 3 0 0))
        (fvec_of (MVector 6 0 0)) (Fin 1) empty_scene =
       (Inr (fvec_of (MVector 3 0 0)), displayInfo (fvec_of (MVector 3 0 0)) empty_scene)
   \<and> get_pole_vec_pos raising_normal (fvec_of (MVector 0 0 0)) (fvec_of (MVector 3 0 0))
        (fvec_of (MVector 6 0 0)) (Fin 1) empty_scene =
       (Inl (RuntimeError ''normal() of a zero vector''), empty_scene)"
proof -
  have h1: "MVector 0 0 0 \<noteq> MVector 6 0 (0::real)" by simp
  have h2: "on_line (MVector 0 0 0) (MVector 6 0 0) (MVector 3 0 0)"
    by (simp add: on_line_def cross_def minus_MVector_def)
  show ?thesis
    using exact_closest_on h1 h2
      mid_on_line_delegates_to_library [OF exact_closest_on h1 h2, of zero_normal "Fin 1" empty_scene]
      mid_on_line_delegates_to_library [OF exact_closest_on h1 h2, of raising_normal "Fin 1" empty_scene]
    by (simp add: zero_normal_def raising_normal_def fvec_of_def scale_def plus_MVector_def
        minus_MVector_def length_vec_def dot_def rnd_simps sqrt_simps)
qed

text \<open>
  C6, as stated, fails: the multiplier is never inspected. With root \<open>(0,0,0)\<close>, mid
  \<open>(3,4,0)\<close>, end \<open>(6,0,0)\<close> the multiplier \<open>+\<infinity>\<close> gives the value
  \<open>(NaN, +\<infinity>, NaN)\<close> and the multiplier NaN gives \<open>(NaN, NaN, NaN)\<close>; no error
  is raised.
\<close>

theorem non_finite_multiplier_counterexample:
  "get_pole_vec_pos zero_normal (fvec_of (MVector 0 0 0)) (fvec_of (MVector 3 4 0))
     (fvec_of (MVector 6 0 0)) PInf empty_scene =
     (Inr (MVector NaN PInf NaN), displayInfo (MVector NaN PInf NaN) empty_scene)
   \<and> get_pole_vec_pos zero_normal (fvec_of (MVector 0 0 0)) (fvec_of (MVector 3 4 0))
     (fvec_of (MVector 6 0 0)) NaN empty_scene =
     (Inr (MVector NaN NaN NaN), displayInfo (MVector NaN NaN NaN) empty_scene)"
  by (simp add: run_defs rnd_simps sqrt_simps)

text \<open>
  C6, amended. The multiplier is not validated: for all positions, a call with a
  multiplier that is NaN or an infinity raises an error exactly when the call with the
  multiplier 1 raises that error, and otherwise returns (and shows) a vector none of
  whose three coordinates is finite.
\<close>

theorem non_finite_multiplier_not_inspected:
  assumes "\<not> isfinite multiplier"
  shows "(get_pole_vec_pos nz root_pos mid_pos end_pos multiplier s = (Inl err, s))
           = (get_pole_vec_pos nz root_pos mid_pos end_pos (Fin 1) s = (Inl err, s))
       \<and> (\<exists>v. get_pole_vec_pos nz root_pos mid_pos end_pos multiplier s = (Inr v, displayInfo v s)
               \<and> \<not> isfinite (vec_x v) \<and> \<not> isfinite (vec_y v) \<and> \<not> isfinite (vec_z v))
           = (\<exists>v. get_pole_vec_pos nz root_pos mid_pos end_pos (Fin 1) s = (Inr v, displayInfo v s))"
proof -
  define a where "a = length_vec (mid_pos - root_pos) + length_vec (end_pos - mid_pos)"
  have t: "\<not> isfinite (a * multiplier)"
    using assms by (rule times_not_finite)
  show ?thesis
    using scaled_not_finite [OF t]
    by (auto simp add: get_pole_vec_pos_def pole_locals_def Let_def a_def split: sum.splits)
qed

theorem non_finite_multiplier_not_inspected_witness:
  "\<not> isfinite NaN
   \<and> (\<exists>v. get_pole_vec_pos zero_normal (fvec_of (MVector 0 0 0)) (fvec_of (MVector 3 4 0))
             (fvec_of (MVector 6 0 0)) NaN empty_scene = (Inr v, displayInfo v empty_scene)
           \<and> \<not> isfinite (vec_x v) \<and> \<not> isfinite (vec_y v) \<and> \<not> isfinite (vec_z v))
   \<and> get_pole_vec_pos zero_normal (fvec_of (MVector 0 0 0)) (fvec_of (MVector 0 1 0))
        (fvec_of (MVector 0 0 0)) NaN empty_scene = (Inl ZeroDivisionError, empty_scene)"
proof -
  have h: "\<not> isfinite NaN" by simp
  have r: "\<exists>v. get_pole_vec_pos zero_normal (fvec_of (MVector 0 0 0)) (fvec_of (MVector 3 4 0))
             (fvec_of (MVector 6 0 0)) (Fin 1) empty_scene = (Inr v, displayInfo v empty_scene)"
    by (simp add: run_defs rnd_simps sqrt_simps)
  have e: "get_pole_vec_pos zero_normal (fvec_of (MVector 0 0 0)) (fvec_of (MVector 0 1 0))
        (fvec_of (MVector 0 0 0)) (Fin 1) empty_scene = (Inl ZeroDivisionError, empty_scene)"
    by (simp add: get_pole_vec_pos_def pole_locals_coincide)
  show ?thesis
    using h r e
      non_finite_multiplier_not_inspected [OF h, of zero_normal "fvec_of (MVector 0 0 0)"
        "fvec_of (MVector 3 4 0)" "fvec_of (MVector 6 0 0)" empty_scene]
      non_finite_multiplier_not_inspected [OF h, of zero_normal "fvec_of (MVector 0 0 0)"
        "fvec_of (MVector 0 1 0)" "fvec_of (MVector 0 0 0)" empty_scene ZeroDivisionError]
    by blast
qed

text \<open>
  C7. When the number of selected joints is not three, \<^verbatim>\<open>main\<close> fails with the
  \<^verbatim>\<open>RuntimeError\<close> of \<^verbatim>\<open>cmds.error("Select three joints")\<close> and leaves the scene as
  it was: no locator is created, nothing is shown and the selection is kept.
\<close>

theorem wrong_joint_count_raises:
  assumes "length (ls_selection_joints (selection s)) \<noteq> 3"
  shows "main nz s = (Inl (RuntimeError ''Select three joints''), s)"
  using assms by (simp add: main_def)

theorem wrong_joint_count_raises_witness:
  "length (ls_selection_joints (selection two_joints_scene)) \<noteq> 3
   \<and> main zero_normal two_joints_scene = (Inl (RuntimeError ''Select three joints''), two_joints_scene)
   \<and> locators (snd (main zero_normal two_joints_scene)) = []
   \<and> length (ls_selection_joints (selection four_joints_scene)) \<noteq> 3
   \<and> main zero_normal four_joints_scene = (Inl (RuntimeError ''Select three joints''), four_joints_scene)
   \<and> locators (snd (main zero_normal four_joints_scene)) = []"
proof -
  have h2: "length (ls_selection_joints (selection two_joints_scene)) \<noteq> 3"
    by (simp add: two_joints_scene_def)
  have h4: "length (ls_selection_joints (selection four_joints_scene)) \<noteq> 3"
    by (simp add: four_joints_scene_def)
  have l2: "locators two_joints_scene = []" by (simp add: two_joints_scene_def)
  have l4: "locators four_joints_scene = []" by (simp add: four_joints_scene_def)
  show ?thesis
    using h2 h4 wrong_joint_count_raises [OF h2, of zero_normal]
      wrong_joint_count_raises [OF h4, of zero_normal]
    by (simp add: l2 l4)
qed




text \<open>
  C9. The scenario root \<open>(0,0,0)\<close>, mid \<open>(0,1,0)\<close>, end \<open>(2,0,0)\<close>, multiplier 1, in
  doubles: line is \<open>(2,0,0)\<close>, the scalar is 0, the closest point is \<open>(0,0,0)\<close>, the
  lengths are 1 and the double nearest to \<open>\<surd>5\<close>, the total is the double nearest to
  \<open>1 + \<surd>5\<close>, the offset direction is \<open>(0,1,0)\<close> and the returned point is
  \<open>(0, 4.23606797749979, 0)\<close>, the double nearest to \<open>2 + \<surd>5\<close> and within \<open>10\<^sup>-\<^sup>4\<close>
  of \<open>4.236\<close>.
\<close>

theorem concrete_scenario:
  "pole_locals nz (fvec_of (MVector 0 0 0)) (fvec_of (MVector 0 1 0)) (fvec_of (MVector 2 0 0)) (Fin 1) =
     Inr \<lparr>line = fvec_of (MVector 2 0 0), source_point = fvec_of (MVector 0 1 0),
          closest_point_scale_val = Fin 0, closest_mid_point = fvec_of (MVector 0 0 0),
          root_to_mid_mag = Fin 1, mid_to_end_mag = Fin (5035177455121576 / 2 ^ 51),
          total_mag = Fin (7286977268806824 / 2 ^ 51),
          pole_vector = fvec_of (MVector 0 (4769388541246036 / 2 ^ 50) 0)\<rparr>
   \<and> normal nz (fvec_of (MVector 0 1 0) - fvec_of (MVector 0 0 0)) = Inr (fvec_of (MVector 0 1 0))
   \<and> get_pole_vec_pos nz (fvec_of (MVector 0 0 0)) (fvec_of (MVector 0 1 0))
        (fvec_of (MVector 2 0 0)) (Fin 1) s =
       (Inr (fvec_of (MVector 0 (4769388541246036 / 2 ^ 50) 0)),
        displayInfo (fvec_of (MVector 0 (4769388541246036 / 2 ^ 50) 0)) s)
   \<and> \<bar>5035177455121576 / 2 ^ 51 - sqrt 5\<bar> \<le> 1 / 2 ^ 52
   \<and> \<bar>7286977268806824 / 2 ^ 51 - (1 + sqrt 5)\<bar> \<le> 1 / 2 ^ 52
   \<and> \<bar>4769388541246036 / 2 ^ 50 - (2 + sqrt 5)\<bar> \<le> 1 / 2 ^ 52
   \<and> \<bar>4769388541246036 / 2 ^ 50 - 4236 / 1000\<bar> \<le> (1 / 10000 :: real)"
proof -
  have l: "pole_locals nz (fvec_of (MVector 0 0 0)) (fvec_of (MVector 0 1 0)) (fvec_of (MVector 2 0 0)) (Fin 1) =
     Inr \<lparr>line = fvec_of (MVector 2 0 0), source_point = fvec_of (MVector 0 1 0),
          closest_point_scale_val = Fin 0, closest_mid_point = fvec_of (MVector 0 0 0),
          root_to_mid_mag = Fin 1, mid_to_end_mag = Fin (5035177455121576 / 2 ^ 51),
          total_mag = Fin (7286977268806824 / 2 ^ 51),
          pole_vector = fvec_of (MVector 0 (4769388541246036 / 2 ^ 50) 0)\<rparr>"
    by (simp add: pole_locals_def py_div_def normal_def Let_def length_vec_def dot_def scale_def
        plus_MVector_def minus_MVector_def fvec_of_def rnd_simps rnd_facts rnd_sqrt_5 [simplified])
  have n: "normal nz (fvec_of (MVector 0 1 0) - fvec_of (MVector 0 0 0)) = Inr (fvec_of (MVector 0 1 0))"
    by (simp add: normal_def Let_def length_vec_def dot_def minus_MVector_def fvec_of_def rnd_simps)
  have g: "get_pole_vec_pos nz (fvec_of (MVector 0 0 0)) (fvec_of (MVector 0 1 0))
        (fvec_of (MVector 2 0 0)) (Fin 1) s =
       (Inr (fvec_of (MVector 0 (4769388541246036 / 2 ^ 50) 0)),
        displayInfo (fvec_of (MVector 0 (4769388541246036 / 2 ^ 50) 0)) s)"
    by (simp only: get_pole_vec_pos_def l sum.case locals.simps)
  have b: "10070354910243151 < sqrt 5 * 2 ^ 52" "sqrt 5 * 2 ^ 52 < 10070354910243153"
    using sqrt_5_enclosure by (simp_all add: field_simps)
  have b1: "\<bar>5035177455121576 / 2 ^ 51 - sqrt 5\<bar> \<le> 1 / 2 ^ 52"
    unfolding abs_le_iff using b by (simp add: field_simps)
  have b2: "\<bar>7286977268806824 / 2 ^ 51 - (1 + sqrt 5)\<bar> \<le> 1 / 2 ^ 52"
    unfolding abs_le_iff using b by (simp add: field_simps)
  have b3: "\<bar>4769388541246036 / 2 ^ 50 - (2 + sqrt 5)\<bar> \<le> 1 / 2 ^ 52"
    unfolding abs_le_iff using b by (simp add: field_simps)
  have b4: "\<bar>4769388541246036 / 2 ^ 50 - 4236 / 1000\<bar> \<le> (1 / 10000 :: real)"
    by simp
  from l n g b1 b2 b3 b4 show ?thesis by blast
qed




end
